theory Spec2Isabelle
  imports Main
begin

section \<open>JavaScript numbers\<close>

text \<open>
  Every number of the calculator is an IEEE 754 binary64 value. \<open>Fin m e\<close> is the finite
  double \<open>m * 2^e\<close>; results are kept with an odd \<open>m\<close> (zero is \<open>Fin 0 0\<close>), so equal doubles
  are equal terms. The two zeros are identified: no path of \<open>script.js\<close> that is modelled here
  tells them apart (\<open>b === 0\<close> holds for both, both print as \<open>0\<close>, both are falsy).
\<close>

datatype number = NaN | PosInf | NegInf | Fin int int

function bitlen :: "int \<Rightarrow> int" where
  "bitlen n = (if n \<le> 0 then 0 else 1 + bitlen (n div 2))"
  by pat_completeness auto
termination
  by (relation "measure nat") auto

declare bitlen.simps [simp del]

function norm :: "int \<Rightarrow> int \<Rightarrow> number" where
  "norm m e = (if m = 0 then Fin 0 0 else if even m then norm (m div 2) (e + 1) else Fin m e)"
  by pat_completeness auto
termination
  by (relation "measure (\<lambda>(m, e). nat \<bar>m\<bar>)") auto

declare norm.simps [simp del]

definition shl :: "int \<Rightarrow> int \<Rightarrow> int" where
  "shl n k = (if 0 \<le> k then n * 2 ^ nat k else n)"

definition round_ties_even :: "int \<Rightarrow> int \<Rightarrow> int \<Rightarrow> int" where
  "round_ties_even f r d =
     (if 2 * r < d then f else if d < 2 * r then f + 1 else if even f then f else f + 1)"

text \<open>\<open>round_half_even n d\<close> is the integer nearest to \<open>n / d\<close>, the even one at a tie.\<close>

definition round_half_even :: "int \<Rightarrow> int \<Rightarrow> int" where
  "round_half_even n d = round_ties_even (n div d) (n mod d) d"

text \<open>\<open>ilog2 p q\<close> is the integer \<open>c\<close> with \<open>2^c \<le> p / q < 2^(c + 1)\<close>, for positive \<open>p\<close> and \<open>q\<close>.\<close>

definition ilog2_from :: "int \<Rightarrow> int \<Rightarrow> int \<Rightarrow> int" where
  "ilog2_from p q c = (if shl q c \<le> shl p (- c) then c else c - 1)"

definition ilog2 :: "int \<Rightarrow> int \<Rightarrow> int" where
  "ilog2 p q = ilog2_from p q (bitlen p - bitlen q)"

definition signed_inf :: "bool \<Rightarrow> number" where
  "signed_inf neg = (if neg then NegInf else PosInf)"

text \<open>
  \<open>fl neg p q E\<close> rounds the exact value \<open>\<plusminus> (p / q) * 2^E\<close> (\<open>p \<ge> 0\<close>, \<open>q > 0\<close>) to the nearest
  double, ties to even: 53 significant bits, so the last bit weighs \<open>2^qe\<close> with \<open>qe\<close> the
  binary exponent less 52; gradual underflow below \<open>2^-1022\<close>; overflow to an infinity from
  \<open>2^1024\<close> on.
\<close>

definition fl_pack :: "bool \<Rightarrow> int \<Rightarrow> int \<Rightarrow> number" where
  "fl_pack neg mant qe =
     (if 1024 < bitlen mant + qe then signed_inf neg else norm (if neg then - mant else mant) qe)"

definition fl_at :: "bool \<Rightarrow> int \<Rightarrow> int \<Rightarrow> int \<Rightarrow> int \<Rightarrow> number" where
  "fl_at neg p q E qe = fl_pack neg (round_half_even (shl p (E - qe)) (shl q (qe - E))) qe"

definition fl :: "bool \<Rightarrow> int \<Rightarrow> int \<Rightarrow> int \<Rightarrow> number" where
  "fl neg p q E =
     (if p = 0 then Fin 0 0 else fl_at neg p q E (max (ilog2 p q + E) (- 1022) - 52))"

text \<open>\<open>fl_int m E\<close> is the double nearest to \<open>m * 2^E\<close>, and \<open>int_num n\<close> the one nearest to \<open>n\<close>.\<close>

definition fl_int :: "int \<Rightarrow> int \<Rightarrow> number" where
  "fl_int m E = fl (m < 0) \<bar>m\<bar> 1 E"

definition int_num :: "int \<Rightarrow> number" where
  "int_num n = fl_int n 0"

definition isNaN :: "number \<Rightarrow> bool" where
  "isNaN x = (x = NaN)"

fun isFinite :: "number \<Rightarrow> bool" where
  "isFinite (Fin m e) = True"
| "isFinite x = False"

fun is_zero :: "number \<Rightarrow> bool" where
  "is_zero (Fin m e) = (m = 0)"
| "is_zero x = False"

text \<open>\<open>x || 0\<close> on a number: \<open>NaN\<close> and zero are falsy.\<close>

definition or_zero :: "number \<Rightarrow> number" where
  "or_zero x = (if isNaN x \<or> is_zero x then Fin 0 0 else x)"

fun Number_isInteger :: "number \<Rightarrow> bool" where
  "Number_isInteger (Fin m e) = (0 \<le> e \<or> m mod 2 ^ nat (- e) = 0)"
| "Number_isInteger x = False"

text \<open>The value of an integral number, as an integer.\<close>

fun to_int :: "number \<Rightarrow> int" where
  "to_int (Fin m e) = (if 0 \<le> e then m * 2 ^ nat e else m div 2 ^ nat (- e))"
| "to_int x = 0"

text \<open>The comparisons \<open><\<close>, \<open><=\<close> and \<open>===\<close>; every comparison with \<open>NaN\<close> is false.\<close>

fun lt :: "number \<Rightarrow> number \<Rightarrow> bool" where
  "lt NaN y = False"
| "lt x NaN = False"
| "lt PosInf y = False"
| "lt x NegInf = False"
| "lt NegInf y = True"
| "lt x PosInf = True"
| "lt (Fin m1 e1) (Fin m2 e2) = (shl m1 (e1 - e2) < shl m2 (e2 - e1))"

fun num_eq :: "number \<Rightarrow> number \<Rightarrow> bool" where
  "num_eq (Fin m1 e1) (Fin m2 e2) = (shl m1 (e1 - e2) = shl m2 (e2 - e1))"
| "num_eq PosInf y = (y = PosInf)"
| "num_eq NegInf y = (y = NegInf)"
| "num_eq x y = False"

definition le :: "number \<Rightarrow> number \<Rightarrow> bool" where
  "le x y = (lt x y \<or> num_eq x y)"

fun Math_abs :: "number \<Rightarrow> number" where
  "Math_abs (Fin m e) = Fin \<bar>m\<bar> e"
| "Math_abs NegInf = PosInf"
| "Math_abs x = x"

fun negate :: "number \<Rightarrow> number" where
  "negate (Fin m e) = Fin (- m) e"
| "negate NegInf = PosInf"
| "negate PosInf = NegInf"
| "negate NaN = NaN"

text \<open>The arithmetic operators: the exact result, rounded once.\<close>

fun add :: "number \<Rightarrow> number \<Rightarrow> number" where
  "add NaN y = NaN"
| "add x NaN = NaN"
| "add PosInf NegInf = NaN"
| "add NegInf PosInf = NaN"
| "add PosInf y = PosInf"
| "add NegInf y = NegInf"
| "add x PosInf = PosInf"
| "add x NegInf = NegInf"
| "add (Fin m1 e1) (Fin m2 e2) = fl_int (shl m1 (e1 - e2) + shl m2 (e2 - e1)) (min e1 e2)"

definition sub :: "number \<Rightarrow> number \<Rightarrow> number" where
  "sub x y = add x (negate y)"

fun is_negative :: "number \<Rightarrow> bool" where
  "is_negative (Fin m e) = (m < 0)"
| "is_negative NegInf = True"
| "is_negative x = False"

fun mul :: "number \<Rightarrow> number \<Rightarrow> number" where
  "mul NaN y = NaN"
| "mul x NaN = NaN"
| "mul (Fin m1 e1) (Fin m2 e2) = fl_int (m1 * m2) (e1 + e2)"
| "mul x y = (if is_zero x \<or> is_zero y then NaN else signed_inf (is_negative x \<noteq> is_negative y))"

text \<open>A zero divisor is taken as \<open>+0\<close>; \<open>script.js\<close> never divides by a zero.\<close>

fun divide :: "number \<Rightarrow> number \<Rightarrow> number" where
  "divide NaN y = NaN"
| "divide x NaN = NaN"
| "divide (Fin m1 e1) (Fin m2 e2) =
     (if m2 = 0 then (if m1 = 0 then NaN else signed_inf (m1 < 0))
      else fl ((m1 < 0) \<noteq> (m2 < 0)) \<bar>m1\<bar> \<bar>m2\<bar> (e1 - e2))"
| "divide (Fin m1 e1) y = Fin 0 0"
| "divide x (Fin m2 e2) = signed_inf (is_negative x \<noteq> (m2 < 0))"
| "divide x y = NaN"

text \<open>The remainder \<open>%\<close> is exact and takes the sign of the dividend.\<close>

definition signed_mod :: "int \<Rightarrow> int \<Rightarrow> int" where
  "signed_mod a b = (if a < 0 then - (\<bar>a\<bar> mod \<bar>b\<bar>) else \<bar>a\<bar> mod \<bar>b\<bar>)"

fun remainder :: "number \<Rightarrow> number \<Rightarrow> number" where
  "remainder (Fin m1 e1) (Fin m2 e2) =
     (if m2 = 0 then NaN
      else norm (signed_mod (shl m1 (e1 - e2)) (shl m2 (e2 - e1))) (min e1 e2))"
| "remainder (Fin m1 e1) PosInf = Fin m1 e1"
| "remainder (Fin m1 e1) NegInf = Fin m1 e1"
| "remainder x y = NaN"

section \<open>Numbers and strings\<close>

definition digit_char :: "int \<Rightarrow> char" where
  "digit_char d = ''0123456789'' ! nat d"

function dec_digits :: "int \<Rightarrow> string" where
  "dec_digits n = (if n < 10 then [digit_char n] else dec_digits (n div 10) @ [digit_char (n mod 10)])"
  by pat_completeness auto
termination
  by (relation "measure nat") auto

declare dec_digits.simps [simp del]

definition shl10 :: "int \<Rightarrow> int \<Rightarrow> int" where
  "shl10 n k = (if 0 \<le> k then n * 10 ^ nat k else n)"

text \<open>\<open>ilog10 p q\<close> is the integer \<open>n\<close> with \<open>10^(n - 1) \<le> p / q < 10^n\<close>, for positive \<open>p\<close> and \<open>q\<close>.\<close>

definition ilog10_from :: "int \<Rightarrow> int \<Rightarrow> int \<Rightarrow> int" where
  "ilog10_from p q c = (if shl10 p (- c) < shl10 q c then c else c + 1)"

definition ilog10 :: "int \<Rightarrow> int \<Rightarrow> int" where
  "ilog10 p q = ilog10_from p q (int (length (dec_digits p)) - int (length (dec_digits q)))"

text \<open>
  \<open>Number.prototype.toString\<close> (ECMA-262, Number::toString, radix 10) prints the shortest
  decimal \<open>s * 10^(n - k)\<close> with \<open>k\<close> digits that rounds back to the number \<open>x\<close>; among several
  of the same length the closest one, an even \<open>s\<close> at a tie. \<open>digits_at\<close> looks for it at a
  given \<open>k\<close> among the two \<open>k\<close>-digit neighbours \<open>N div D\<close> and \<open>N div D + 1\<close> of \<open>x = p / q\<close>,
  where \<open>N / D = x / 10^(n - k)\<close>.
\<close>

definition roundtrips :: "number \<Rightarrow> int \<Rightarrow> int \<Rightarrow> int \<Rightarrow> bool" where
  "roundtrips x n k s = (fl False (shl10 s (n - k)) (shl10 1 (k - n)) 0 = x)"

definition pick :: "int \<Rightarrow> int \<Rightarrow> int \<Rightarrow> int \<times> int" where
  "pick n k s = (if s = 10 ^ nat k then (10 ^ nat (k - 1), n + 1) else (s, n))"

definition closest :: "int \<Rightarrow> int \<Rightarrow> int \<Rightarrow> int" where
  "closest lo r D = (if 2 * r < D then lo else if D < 2 * r then lo + 1
                     else if even lo then lo else lo + 1)"

definition candidates :: "number \<Rightarrow> int \<Rightarrow> int \<Rightarrow> int \<Rightarrow> int \<Rightarrow> int \<Rightarrow> (int \<times> int) option" where
  "candidates x n k lo r D =
     (if roundtrips x n k lo then
        (if r \<noteq> 0 \<and> roundtrips x n k (lo + 1) then Some (pick n k (closest lo r D))
         else Some (pick n k lo))
      else if r \<noteq> 0 \<and> roundtrips x n k (lo + 1) then Some (pick n k (lo + 1))
      else None)"

definition neighbours :: "number \<Rightarrow> int \<Rightarrow> int \<Rightarrow> int \<Rightarrow> int \<Rightarrow> (int \<times> int) option" where
  "neighbours x n k N D = candidates x n k (N div D) (N mod D) D"

definition digits_at :: "number \<Rightarrow> int \<Rightarrow> int \<Rightarrow> int \<Rightarrow> int \<Rightarrow> (int \<times> int) option" where
  "digits_at x p q n k = neighbours x n k (shl10 p (k - n)) (shl10 q (n - k))"

function shortest :: "number \<Rightarrow> int \<Rightarrow> int \<Rightarrow> int \<Rightarrow> int \<Rightarrow> int \<times> int" where
  "shortest x p q n k =
     (case digits_at x p q n k of
        Some r \<Rightarrow> r
      | None \<Rightarrow> if 17 \<le> k then (shl10 p (k - n) div shl10 q (n - k), n)
                else shortest x p q n (k + 1))"
  by pat_completeness auto
termination
  by (relation "measure (\<lambda>(x, p, q, n, k). nat (17 - k))") auto

declare shortest.simps [simp del]

definition exponent_string :: "int \<Rightarrow> string" where
  "exponent_string ex = ''e'' @ (if ex < 0 then ''-'' else ''+'') @ dec_digits \<bar>ex\<bar>"

definition point_after_first :: "string \<Rightarrow> string" where
  "point_after_first ds = (if length ds = 1 then ds else hd ds # ''.'' @ tl ds)"

definition render_digits :: "string \<Rightarrow> int \<Rightarrow> int \<Rightarrow> string" where
  "render_digits ds k n =
     (if k \<le> n \<and> n \<le> 21 then ds @ replicate (nat (n - k)) CHR ''0''
      else if 0 < n \<and> n \<le> 21 then take (nat n) ds @ ''.'' @ drop (nat n) ds
      else if - 6 < n \<and> n \<le> 0 then ''0.'' @ replicate (nat (- n)) CHR ''0'' @ ds
      else point_after_first ds @ exponent_string (n - 1))"

definition render :: "int \<times> int \<Rightarrow> string" where
  "render sn = render_digits (dec_digits (fst sn)) (int (length (dec_digits (fst sn)))) (snd sn)"

definition positive_string :: "number \<Rightarrow> int \<Rightarrow> int \<Rightarrow> string" where
  "positive_string x p q = render (shortest x p q (ilog10 p q) 1)"

fun toString :: "number \<Rightarrow> string" where
  "toString NaN = ''NaN''"
| "toString PosInf = ''Infinity''"
| "toString NegInf = ''-Infinity''"
| "toString (Fin m e) =
     (if m = 0 then ''0''
      else (if m < 0 then ''-'' else [])
           @ positive_string (norm \<bar>m\<bar> e) (shl \<bar>m\<bar> e) (shl 1 (- e)))"

text \<open>
  \<open>Number.prototype.toExponential(f)\<close>: one digit, \<open>f\<close> fraction digits, the exponent. The
  exact value \<open>p / q\<close> is rounded to \<open>f + 1\<close> significant digits, a tie upwards; \<open>N / D\<close> is the
  value scaled to have \<open>f + 1\<close> digits before the point.
\<close>

definition round_half_up :: "int \<Rightarrow> int \<Rightarrow> int" where
  "round_half_up N D = (if 2 * (N mod D) < D then N div D else N div D + 1)"

definition exponential_string :: "nat \<Rightarrow> int \<Rightarrow> int \<Rightarrow> string" where
  "exponential_string f e0 n0 =
     (if n0 = 10 ^ (f + 1) then point_after_first (dec_digits (10 ^ f)) @ exponent_string (e0 + 1)
      else point_after_first (dec_digits n0) @ exponent_string e0)"

definition positive_exponential :: "nat \<Rightarrow> int \<Rightarrow> int \<Rightarrow> int \<Rightarrow> string" where
  "positive_exponential f p q e0 =
     exponential_string f e0 (round_half_up (shl10 p (int f - e0)) (shl10 q (e0 - int f)))"

fun toExponential :: "nat \<Rightarrow> number \<Rightarrow> string" where
  "toExponential f NaN = ''NaN''"
| "toExponential f PosInf = ''Infinity''"
| "toExponential f NegInf = ''-Infinity''"
| "toExponential f (Fin m e) =
     (if m = 0 then point_after_first (replicate (f + 1) CHR ''0'') @ ''e+0''
      else (if m < 0 then ''-'' else [])
           @ positive_exponential f (shl \<bar>m\<bar> e) (shl 1 (- e))
               (ilog10 (shl \<bar>m\<bar> e) (shl 1 (- e)) - 1))"

text \<open>
  \<open>parseFloat\<close> reads the longest prefix that is a decimal literal, after leading white
  space: a sign, then \<open>Infinity\<close> or digits with an optional fraction and exponent. What
  follows the literal is ignored; without a literal the result is \<open>NaN\<close>.
\<close>

definition is_digit :: "char \<Rightarrow> bool" where
  "is_digit c = (c \<in> set ''0123456789'')"

text \<open>
  The white space that \<open>parseFloat\<close> skips is every \<open>StrWhiteSpaceChar\<close>: the ASCII ones
  (space, tab, line feed, vertical tab, form feed, carriage return), the no-break space
  U+00A0, and U+1680, U+2000 to U+200A, U+2028, U+2029, U+202F, U+205F, U+3000 and U+FEFF.
  A character is a byte here and text beyond ASCII is UTF-8, so the latter are sequences of
  two or three bytes; a no-break space given as the single byte \<open>A0\<close> is skipped too.
\<close>

definition is_space :: "char \<Rightarrow> bool" where
  "is_space c = (c \<in> set [CHR '' '', CHR 0x09, CHR 0x0A, CHR 0x0B, CHR 0x0C, CHR 0x0D, CHR 0xA0])"

definition wide_spaces :: "string list" where
  "wide_spaces =
     [[CHR 0xE1, CHR 0x9A, CHR 0x80],
      [CHR 0xE2, CHR 0x80, CHR 0x80], [CHR 0xE2, CHR 0x80, CHR 0x81],
      [CHR 0xE2, CHR 0x80, CHR 0x82], [CHR 0xE2, CHR 0x80, CHR 0x83],
      [CHR 0xE2, CHR 0x80, CHR 0x84], [CHR 0xE2, CHR 0x80, CHR 0x85],
      [CHR 0xE2, CHR 0x80, CHR 0x86], [CHR 0xE2, CHR 0x80, CHR 0x87],
      [CHR 0xE2, CHR 0x80, CHR 0x88], [CHR 0xE2, CHR 0x80, CHR 0x89],
      [CHR 0xE2, CHR 0x80, CHR 0x8A], [CHR 0xE2, CHR 0x80, CHR 0xA8],
      [CHR 0xE2, CHR 0x80, CHR 0xA9], [CHR 0xE2, CHR 0x80, CHR 0xAF],
      [CHR 0xE2, CHR 0x81, CHR 0x9F], [CHR 0xE3, CHR 0x80, CHR 0x80],
      [CHR 0xEF, CHR 0xBB, CHR 0xBF]]"

function skip_space :: "string \<Rightarrow> string" where
  "skip_space [] = []"
| "skip_space (c # cs) =
     (if is_space c then skip_space cs
      else if c = CHR 0xC2 \<and> take 1 cs = [CHR 0xA0] then skip_space (tl cs)
      else if c # take 2 cs \<in> set wide_spaces then skip_space (tl (tl cs))
      else c # cs)"
  by pat_completeness auto
termination
  by (relation "measure length") auto

declare skip_space.simps [simp del]

definition digit_val :: "char \<Rightarrow> int" where
  "digit_val c = int (length (takeWhile (\<lambda>d. d \<noteq> c) ''0123456789''))"

definition dec_value :: "string \<Rightarrow> int" where
  "dec_value ds = foldl (\<lambda>a c. 10 * a + digit_val c) 0 ds"

definition has_sign :: "string \<Rightarrow> bool" where
  "has_sign t = (t \<noteq> [] \<and> (hd t = CHR ''-'' \<or> hd t = CHR ''+''))"

definition has_minus :: "string \<Rightarrow> bool" where
  "has_minus t = (t \<noteq> [] \<and> hd t = CHR ''-'')"

definition signed_value :: "bool \<Rightarrow> string \<Rightarrow> int" where
  "signed_value neg ds = (if ds = [] then 0 else if neg then - dec_value ds else dec_value ds)"

definition exponent_part :: "string \<Rightarrow> int" where
  "exponent_part r =
     (if r \<noteq> [] \<and> (hd r = CHR ''e'' \<or> hd r = CHR ''E'')
      then signed_value (has_minus (tl r))
             (takeWhile is_digit (if has_sign (tl r) then tl (tl r) else tl r))
      else 0)"

definition decimal_value :: "bool \<Rightarrow> string \<Rightarrow> int \<Rightarrow> number" where
  "decimal_value neg ds sc = fl neg (shl10 (dec_value ds) sc) (shl10 1 (- sc)) 0"

definition parse_fraction :: "bool \<Rightarrow> string \<Rightarrow> string \<Rightarrow> number" where
  "parse_fraction neg ip r =
     (if ip = [] \<and> takeWhile is_digit r = [] then NaN
      else decimal_value neg (ip @ takeWhile is_digit r)
             (exponent_part (dropWhile is_digit r) - int (length (takeWhile is_digit r))))"

definition parse_integer :: "bool \<Rightarrow> string \<Rightarrow> string \<Rightarrow> number" where
  "parse_integer neg ip r = (if ip = [] then NaN else decimal_value neg ip (exponent_part r))"

definition parse_literal :: "bool \<Rightarrow> string \<Rightarrow> number" where
  "parse_literal neg u =
     (if take 8 u = ''Infinity'' then signed_inf neg
      else if dropWhile is_digit u \<noteq> [] \<and> hd (dropWhile is_digit u) = CHR ''.''
        then parse_fraction neg (takeWhile is_digit u) (tl (dropWhile is_digit u))
      else parse_integer neg (takeWhile is_digit u) (dropWhile is_digit u))"

definition parse_signed :: "string \<Rightarrow> number" where
  "parse_signed t = parse_literal (has_minus t) (if has_sign t then tl t else t)"

definition parseFloat :: "string \<Rightarrow> number" where
  "parseFloat str = parse_signed (skip_space str)"

text \<open>
  \<open>toLocaleString\<close> depends on the locale of the host, so the formatter takes it as a
  parameter. This is the instance for \<open>en-US\<close>: digits grouped in threes by commas, at most
  three fraction digits, a half rounded away from zero. The digits are those of
  \<open>toString\<close>, the shortest decimal that reads back as the number, followed by zeros: the
  double nearest to \<open>10^23\<close> prints as \<open>100,000,000,000,000,000,000,000\<close>.
\<close>

function group3 :: "string \<Rightarrow> string" where
  "group3 ds = (if length ds \<le> 3 then ds
                else group3 (take (length ds - 3) ds) @ '','' @ drop (length ds - 3) ds)"
  by pat_completeness auto
termination
  by (relation "measure length") auto

declare group3.simps [simp del]

definition fraction3 :: "int \<Rightarrow> string" where
  "fraction3 r = (if r = 0 then []
     else ''.'' @ rev (dropWhile (\<lambda>c. c = CHR ''0'') (rev (tl (dec_digits (1000 + r))))))"

definition thousandths :: "int \<Rightarrow> string" where
  "thousandths r = group3 (dec_digits (r div 1000)) @ fraction3 (r mod 1000)"

text \<open>The decimal \<open>s * 10^(n - k)\<close>, \<open>k\<close> the number of digits of \<open>s\<close>, in thousandths.\<close>

definition decimal_thousandths :: "int \<Rightarrow> int \<Rightarrow> int \<Rightarrow> int" where
  "decimal_thousandths s k n = round_half_up (shl10 s (n - k + 3)) (shl10 1 (k - n - 3))"

definition shortest_thousandths :: "int \<times> int \<Rightarrow> int" where
  "shortest_thousandths sn =
     decimal_thousandths (fst sn) (int (length (dec_digits (fst sn)))) (snd sn)"

fun toLocaleString_enUS :: "number \<Rightarrow> string" where
  "toLocaleString_enUS NaN = ''NaN''"
| "toLocaleString_enUS PosInf = [CHR 0xE2, CHR 0x88, CHR 0x9E]"
| "toLocaleString_enUS NegInf = [CHR ''-'', CHR 0xE2, CHR 0x88, CHR 0x9E]"
| "toLocaleString_enUS (Fin m e) =
     (if m = 0 then ''0''
      else (if m < 0 then ''-'' else [])
           @ thousandths (shortest_thousandths
               (shortest (norm \<bar>m\<bar> e) (shl \<bar>m\<bar> e) (shl 1 (- e))
                  (ilog10 (shl \<bar>m\<bar> e) (shl 1 (- e))) 1)))"

section \<open>CalculationStrategies\<close>

text \<open>
  An exception is a value of type \<open>error\<close>. \<open>DomainError\<close> carries the message of the
  scientific function that raised it; \<open>TypeError\<close> is what the runtime raises by itself.
\<close>

datatype error =
    DivisionByZero
  | DomainError string
  | InvalidNumber
  | UnknownOperation string
  | UnknownFunction string
  | TypeError string

text \<open>
  The functions of \<open>Math\<close> whose results the language leaves to the implementation are
  parameters of the model.
\<close>

record math =
  Math_sin :: "number \<Rightarrow> number"
  Math_cos :: "number \<Rightarrow> number"
  Math_tan :: "number \<Rightarrow> number"
  Math_log10 :: "number \<Rightarrow> number"
  Math_log :: "number \<Rightarrow> number"
  Math_sqrt :: "number \<Rightarrow> number"
  Math_pow :: "number \<Rightarrow> number \<Rightarrow> number"

definition Math_PI :: number where
  "Math_PI = Fin 884279719003555 (- 48)"

definition Math_E :: number where
  "Math_E = Fin 6121026514868073 (- 51)"

definition basic_operations :: "string \<Rightarrow> (number \<Rightarrow> number \<Rightarrow> error + number) option" where
  "basic_operations op =
     (if op = ''+'' then Some (\<lambda>a b. Inr (add a b))
      else if op = ''-'' then Some (\<lambda>a b. Inr (sub a b))
      else if op = ''*'' then Some (\<lambda>a b. Inr (mul a b))
      else if op = ''/'' then Some (\<lambda>a b. if is_zero b then Inl DivisionByZero else Inr (divide a b))
      else if op = ''%'' then Some (\<lambda>a b. Inr (remainder a b))
      else None)"

text \<open>The loop of \<open>factorial\<close>; its bound is an integer between 2 and 170 when it runs.\<close>

function factorial_loop :: "int \<Rightarrow> int \<Rightarrow> number \<Rightarrow> number" where
  "factorial_loop i x result =
     (if i \<le> x then factorial_loop (i + 1) x (mul result (int_num i)) else result)"
  by pat_completeness auto
termination
  by (relation "measure (\<lambda>(i, x, result). nat (x + 1 - i))") auto

declare factorial_loop.simps [simp del]

definition factorial :: "number \<Rightarrow> error + number" where
  "factorial x =
     (if lt x (int_num 0) \<or> \<not> Number_isInteger x \<or> lt (int_num 170) x
      then Inl (DomainError ''Invalid factorial input'')
      else if num_eq x (int_num 0) \<or> num_eq x (int_num 1) then Inr (int_num 1)
      else Inr (factorial_loop 2 (to_int x) (int_num 1)))"

definition to_radians :: "number \<Rightarrow> number" where
  "to_radians x = divide (mul x Math_PI) (int_num 180)"

definition scientific_operations :: "math \<Rightarrow> string \<Rightarrow> (number \<Rightarrow> error + number) option" where
  "scientific_operations M func =
     (if func = ''sin'' then Some (\<lambda>x. Inr (Math_sin M (to_radians x)))
      else if func = ''cos'' then Some (\<lambda>x. Inr (Math_cos M (to_radians x)))
      else if func = ''tan'' then Some (\<lambda>x. Inr (Math_tan M (to_radians x)))
      else if func = ''log'' then
        Some (\<lambda>x. if le x (int_num 0) then Inl (DomainError ''Invalid logarithm input'')
                  else Inr (Math_log10 M x))
      else if func = ''ln'' then
        Some (\<lambda>x. if le x (int_num 0) then Inl (DomainError ''Invalid natural logarithm input'')
                  else Inr (Math_log M x))
      else if func = ''sqrt'' then
        Some (\<lambda>x. if lt x (int_num 0) then Inl (DomainError ''Invalid square root input'')
                  else Inr (Math_sqrt M x))
      else if func = ''power'' then Some (\<lambda>x. Inr (Math_pow M x (int_num 2)))
      else if func = ''factorial'' then Some factorial
      else None)"

section \<open>CalculatorModel\<close>

record historyItem =
  item_id :: int
  expression :: string
  result :: string
  timestamp :: string

datatype strategy = Basic | Scientific

text \<open>\<open>state\<close> is what \<open>getState\<close> returns and \<open>setState\<close> writes; \<open>model\<close> is the private state.\<close>

record state =
  currentValue :: string
  previousValue :: string
  operator :: "string option"
  isWaitingForOperand :: bool
  history :: string
  memoryValue :: number

record model = state +
  calculationHistory :: "historyItem list"
  currentStrategy :: strategy

definition initial :: model where
  "initial = \<lparr>currentValue = ''0'', previousValue = [], operator = None,
     isWaitingForOperand = False, history = [], memoryValue = int_num 0,
     calculationHistory = [], currentStrategy = Basic\<rparr>"

text \<open>The two readings of the clock that \<open>addToHistory\<close> takes.\<close>

record clock =
  Date_now :: int
  toISOString :: string

text \<open>
  What a call of an entry of the operations tables returns. The entries of the tables
  return numbers. A name that is not in a table is still found when \<open>Object.prototype\<close> has
  it, and those members return other things: the text \<open>[object Object]\<close>, a boolean, the
  table itself (an object), \<open>undefined\<close>, or the first argument wrapped as a number object,
  which behaves as the number everywhere it is used below.
\<close>

datatype returned = Numeric number | ObjectText | Boolean bool | Object | Undefined

fun ToNumber :: "returned \<Rightarrow> number" where
  "ToNumber (Numeric n) = n"
| "ToNumber (Boolean b) = (if b then Fin 1 0 else Fin 0 0)"
| "ToNumber v = NaN"

text \<open>The method calls \<open>v.toString()\<close> and \<open>v.toLocaleString()\<close>; on \<open>undefined\<close> they raise.\<close>

fun toString_call :: "returned \<Rightarrow> error + string" where
  "toString_call (Numeric n) = Inr (toString n)"
| "toString_call (Boolean b) = Inr (if b then ''true'' else ''false'')"
| "toString_call Undefined = Inl (TypeError ''Cannot read properties of undefined'')"
| "toString_call v = Inr ''[object Object]''"

fun toLocaleString_call :: "(number \<Rightarrow> string) \<Rightarrow> returned \<Rightarrow> error + string" where
  "toLocaleString_call toLocaleString (Numeric n) = Inr (toLocaleString n)"
| "toLocaleString_call toLocaleString v = toString_call v"

definition formatNumber :: "(number \<Rightarrow> string) \<Rightarrow> returned \<Rightarrow> error + string" where
  "formatNumber toLocaleString number =
     (if isNaN (ToNumber number) \<or> \<not> isFinite (ToNumber number) then Inl InvalidNumber
      else case toString_call number of
        Inl e \<Rightarrow> Inl e
      | Inr numStr \<Rightarrow>
          if length numStr > 12 then Inr (toExponential 5 (ToNumber number))
          else if le (int_num 1000) (Math_abs (ToNumber number)) \<and> CHR ''.'' \<notin> set numStr
            then toLocaleString_call toLocaleString number
          else Inr numStr)"

definition addToHistory :: "clock \<Rightarrow> string \<Rightarrow> string \<Rightarrow> model \<Rightarrow> model" where
  "addToHistory clk expr res m =
     (let historyItem = \<lparr>item_id = Date_now clk, expression = expr, result = res,
                           timestamp = toISOString clk\<rparr>;
          unshifted = historyItem # calculationHistory m
      in m\<lparr>calculationHistory :=
            (if length unshifted > 100 then take 100 unshifted else unshifted)\<rparr>)"


definition setState :: "state \<Rightarrow> model \<Rightarrow> model" where
  "setState s m = m\<lparr>currentValue := currentValue s, previousValue := previousValue s,
     operator := operator s, isWaitingForOperand := isWaitingForOperand s,
     history := history s, memoryValue := memoryValue s\<rparr>"

text \<open>
  The members that every operations table inherits from \<open>Object.prototype\<close>, called with
  numbers: \<open>constructor\<close> wraps its first argument; \<open>toString\<close> and \<open>toLocaleString\<close> print the
  table; \<open>valueOf\<close> returns it; the three tests are false of a number; the two lookups
  find nothing; the two definers raise because their second argument is not a function;
  and \<open>__proto__\<close> is an object, not a function, so calling it raises.
\<close>

definition inherited :: "string \<Rightarrow> (number \<Rightarrow> error + returned) option" where
  "inherited name =
     (if name = ''constructor'' then Some (\<lambda>a. Inr (Numeric a))
      else if name = ''toString'' \<or> name = ''toLocaleString'' then Some (\<lambda>a. Inr ObjectText)
      else if name = ''valueOf'' then Some (\<lambda>a. Inr Object)
      else if name = ''hasOwnProperty'' \<or> name = ''isPrototypeOf''
           \<or> name = ''propertyIsEnumerable'' then Some (\<lambda>a. Inr (Boolean False))
      else if name = ''__lookupGetter__'' \<or> name = ''__lookupSetter__''
        then Some (\<lambda>a. Inr Undefined)
      else if name = ''__defineGetter__'' \<or> name = ''__defineSetter__''
        then Some (\<lambda>a. Inl (TypeError ''Object.prototype.__defineGetter__: Expecting function''))
      else if name = ''__proto__''
        then Some (\<lambda>a. Inl (TypeError ''strategy.operations[op] is not a function''))
      else None)"

fun number_returned :: "error + number \<Rightarrow> error + returned" where
  "number_returned (Inl e) = Inl e"
| "number_returned (Inr n) = Inr (Numeric n)"

text \<open>
  \<open>strategy.operations[op]\<close>: the entry of the table of the strategy, or else the inherited
  member. In the scientific strategy the entries are the unary functions, which ignore a
  second argument; the five operators are not among them.
\<close>

definition basic_entry :: "string \<Rightarrow> (number \<Rightarrow> number \<Rightarrow> error + returned) option" where
  "basic_entry op = (case basic_operations op of
      Some f \<Rightarrow> Some (\<lambda>a b. number_returned (f a b))
    | None \<Rightarrow> map_option (\<lambda>f a b. f a) (inherited op))"

definition scientific_entry :: "math \<Rightarrow> string \<Rightarrow> (number \<Rightarrow> error + returned) option" where
  "scientific_entry M func = (case scientific_operations M func of
      Some f \<Rightarrow> Some (\<lambda>x. number_returned (f x))
    | None \<Rightarrow> inherited func)"

fun operations :: "math \<Rightarrow> strategy \<Rightarrow> string \<Rightarrow> (number \<Rightarrow> number \<Rightarrow> error + returned) option" where
  "operations M Basic op = basic_entry op"
| "operations M Scientific op = map_option (\<lambda>f a b. f a) (scientific_entry M op)"

definition model_calculate :: "math \<Rightarrow> model \<Rightarrow> string \<Rightarrow> number \<Rightarrow> number \<Rightarrow> error + returned" where
  "model_calculate M m op a b = (case operations M (currentStrategy m) op of
      None \<Rightarrow> Inl (UnknownOperation op)
    | Some f \<Rightarrow> f a b)"

definition scientificCalculate :: "math \<Rightarrow> string \<Rightarrow> number \<Rightarrow> error + returned" where
  "scientificCalculate M func v = (case scientific_entry M func of
      None \<Rightarrow> Inl (UnknownFunction func)
    | Some f \<Rightarrow> f v)"

text \<open>An argument of a memory operation is a string or a number; \<open>parseFloat\<close> reads its string form.\<close>

datatype jsvalue = Str string | Num number

fun parseFloat_value :: "jsvalue \<Rightarrow> number" where
  "parseFloat_value (Str s) = parseFloat s"
| "parseFloat_value (Num n) = parseFloat (toString n)"

definition memoryStore :: "jsvalue \<Rightarrow> model \<Rightarrow> model" where
  "memoryStore v m = m\<lparr>memoryValue := or_zero (parseFloat_value v)\<rparr>"

definition memoryRecall :: "model \<Rightarrow> string" where
  "memoryRecall m = toString (memoryValue m)"

definition memoryAdd :: "jsvalue \<Rightarrow> model \<Rightarrow> model" where
  "memoryAdd v m = m\<lparr>memoryValue := add (memoryValue m) (or_zero (parseFloat_value v))\<rparr>"

definition memorySubtract :: "jsvalue \<Rightarrow> model \<Rightarrow> model" where
  "memorySubtract v m = m\<lparr>memoryValue := sub (memoryValue m) (or_zero (parseFloat_value v))\<rparr>"

definition memoryClear :: "model \<Rightarrow> model" where
  "memoryClear m = m\<lparr>memoryValue := int_num 0\<rparr>"

definition clearHistory :: "model \<Rightarrow> model" where
  "clearHistory m = m\<lparr>calculationHistory := []\<rparr>"

definition reset :: "model \<Rightarrow> model" where
  "reset m = m\<lparr>currentValue := ''0'', previousValue := [], operator := None,
     isWaitingForOperand := False, history := []\<rparr>"

section \<open>CalculatorController\<close>

text \<open>
  Every operation of the controller runs inside \<open>try\<close>/\<open>catch\<close>, so it always returns: the
  model as it is left, and what the view is told. \<open>Updated\<close>: the operation ran to its end;
  \<open>Ignored\<close>: it returned without doing anything; \<open>Rejected\<close>: it declined with a message,
  no exception raised; \<open>Failed\<close>: an exception was caught and its message shown.
\<close>

datatype outcome = Updated | Ignored | Rejected string | Failed error

definition controller_formatNumber :: "(number \<Rightarrow> string) \<Rightarrow> returned \<Rightarrow> string" where
  "controller_formatNumber toLocaleString number =
     (case formatNumber toLocaleString number of Inl e \<Rightarrow> ''0'' | Inr formatted \<Rightarrow> formatted)"

definition inputNumber :: "string \<Rightarrow> model \<Rightarrow> model \<times> outcome" where
  "inputNumber num m =
     (if isWaitingForOperand m
      then (m\<lparr>currentValue := num, isWaitingForOperand := False\<rparr>, Updated)
      else let current = currentValue m;
               newValue = (if current = ''0'' then num else current @ num)
           in if length newValue > 15 then (m, Rejected ''Maximum digits reached'')
              else (m\<lparr>currentValue := newValue\<rparr>, Updated))"

text \<open>A string or \<open>null\<close> in a condition: \<open>null\<close> and the empty string are falsy.\<close>

fun truthy :: "string option \<Rightarrow> bool" where
  "truthy None = False"
| "truthy (Some s) = (s \<noteq> [])"

text \<open>The end of \<open>inputOperator\<close>, common to its three branches.\<close>

definition operator_pending :: "string \<Rightarrow> model \<Rightarrow> model \<times> outcome" where
  "operator_pending nextOperator m =
     (m\<lparr>isWaitingForOperand := True, operator := Some nextOperator,
        history := previousValue m @ '' '' @ nextOperator\<rparr>, Updated)"

definition inputOperator :: "math \<Rightarrow> (number \<Rightarrow> string) \<Rightarrow> string \<Rightarrow> model \<Rightarrow> model \<times> outcome" where
  "inputOperator M toLocaleString nextOperator m =
     (let current = parseFloat (currentValue m); previous = previousValue m in
      if isNaN current then (m, Rejected ''Invalid input'')
      else if previous = [] then operator_pending nextOperator (m\<lparr>previousValue := toString current\<rparr>)
      else if truthy (operator m) \<and> \<not> isWaitingForOperand m then
        (case model_calculate M m (the (operator m)) (parseFloat previous) current of
           Inl e \<Rightarrow> (m, Failed e)
         | Inr res \<Rightarrow>
             (case toString_call res of
                Inl e \<Rightarrow> (m\<lparr>currentValue := controller_formatNumber toLocaleString res\<rparr>, Failed e)
              | Inr text \<Rightarrow> operator_pending nextOperator
                  (m\<lparr>currentValue := controller_formatNumber toLocaleString res,
                     previousValue := text\<rparr>)))
      else operator_pending nextOperator m)"

definition calculate :: "math \<Rightarrow> (number \<Rightarrow> string) \<Rightarrow> clock \<Rightarrow> model \<Rightarrow> model \<times> outcome" where
  "calculate M toLocaleString clk m =
     (let current = parseFloat (currentValue m); previous = previousValue m in
      if previous = [] \<or> operator m = None \<or> isNaN current then (m, Ignored)
      else case model_calculate M m (the (operator m)) (parseFloat previous) current of
        Inl e \<Rightarrow> (m, Failed e)
      | Inr res \<Rightarrow>
          (let formatted = controller_formatNumber toLocaleString res;
               expr = previous @ '' '' @ the (operator m) @ '' '' @ toString current
           in ((addToHistory clk expr formatted m)
                 \<lparr>currentValue := formatted, previousValue := [], operator := None,
                    isWaitingForOperand := True, history := expr @ '' =''\<rparr>, Updated)))"

definition deleteLast :: "model \<Rightarrow> model \<times> outcome" where
  "deleteLast m =
     (let current = currentValue m in
      if length current > 1 \<and> current \<noteq> ''0'' then (m\<lparr>currentValue := butlast current\<rparr>, Updated)
      else (m\<lparr>currentValue := ''0''\<rparr>, Updated))"

definition inputDecimal :: "model \<Rightarrow> model \<times> outcome" where
  "inputDecimal m =
     (if isWaitingForOperand m
      then (m\<lparr>currentValue := ''0.'', isWaitingForOperand := False\<rparr>, Updated)
      else if CHR ''.'' \<notin> set (currentValue m)
        then (m\<lparr>currentValue := currentValue m @ ''.''\<rparr>, Updated)
      else (m, Updated))"

definition performPercentage :: "(number \<Rightarrow> string) \<Rightarrow> model \<Rightarrow> model \<times> outcome" where
  "performPercentage toLocaleString m =
     (let current = parseFloat (currentValue m) in
      if \<not> isNaN current
      then (m\<lparr>currentValue :=
                controller_formatNumber toLocaleString (Numeric (divide current (int_num 100))),
              isWaitingForOperand := True\<rparr>, Updated)
      else (m, Ignored))"

text \<open>
  The second half of \<open>performScientificFunction\<close>, from \<open>formatNumber(result)\<close> on. The
  expression is built after \<open>setCurrentValue(formatted)\<close>, from \<open>getCurrentValue()\<close>.
\<close>

definition scientific_result :: "(number \<Rightarrow> string) \<Rightarrow> clock \<Rightarrow> string \<Rightarrow> returned \<Rightarrow> model \<Rightarrow> model \<times> outcome" where
  "scientific_result toLocaleString clk func res m =
     (let formatted = controller_formatNumber toLocaleString res;
          m1 = m\<lparr>currentValue := formatted, isWaitingForOperand := True\<rparr>;
          expr = (if func = ''pi'' \<or> func = ''e'' then func
                  else func @ ''('' @ currentValue m1 @ '')'')
      in (addToHistory clk expr formatted m1, Updated))"

definition performScientificFunction :: "math \<Rightarrow> (number \<Rightarrow> string) \<Rightarrow> clock \<Rightarrow> string \<Rightarrow> model \<Rightarrow> model \<times> outcome" where
  "performScientificFunction M toLocaleString clk func m =
     (if func = ''pi'' then scientific_result toLocaleString clk func (Numeric Math_PI) m
      else if func = ''e'' then scientific_result toLocaleString clk func (Numeric Math_E) m
      else let current = parseFloat (currentValue m) in
        if isNaN current then (m, Rejected ''Invalid input for function'')
        else case scientificCalculate M func current of
          Inl e \<Rightarrow> (m, Failed e)
        | Inr res \<Rightarrow> scientific_result toLocaleString clk func res m)"

definition handleMemoryClick :: "string \<Rightarrow> model \<Rightarrow> model \<times> outcome" where
  "handleMemoryClick action m =
     (if action = ''clear'' then (memoryClear m, Updated)
      else if action = ''recall''
        then (m\<lparr>currentValue := memoryRecall m, isWaitingForOperand := True\<rparr>, Updated)
      else if action = ''add'' then (memoryAdd (Str (currentValue m)) m, Updated)
      else if action = ''subtract'' then (memorySubtract (Str (currentValue m)) m, Updated)
      else (m, Ignored))"

definition loadFromHistory :: "string \<Rightarrow> model \<Rightarrow> model \<times> outcome" where
  "loadFromHistory v m = (m\<lparr>currentValue := v, isWaitingForOperand := True\<rparr>, Updated)"

definition handleModeToggle :: "string \<Rightarrow> model \<Rightarrow> model \<times> outcome" where
  "handleModeToggle mode m =
     (m\<lparr>currentStrategy := (if mode = ''scientific'' then Scientific else Basic)\<rparr>, Updated)"

section \<open>CommandHistory\<close>

text \<open>
  Commands are objects that \<open>CommandHistory\<close> holds by reference and \<open>execute\<close> writes to,
  so they live in a store, \<open>objects\<close>, and the history lists their addresses. A
  \<open>CalculationCommand\<close> calls \<open>calculator.performOperation\<close>, a method that
  \<open>CalculatorModel\<close> does not have: it is a parameter here. It returns the model as it
  leaves it and the exception it raised, if any.
\<close>

record calculationCommand =
  operation :: string
  operand :: string
  previousState :: "state option"

record commandHistory =
  commands :: "nat list"
  currentIndex :: int


record app =
  calculator :: model
  commandHistory :: commandHistory
  objects :: "nat \<Rightarrow> calculationCommand"

definition new_commandHistory :: commandHistory where
  "new_commandHistory = \<lparr>commands = [], currentIndex = - 1\<rparr>"

definition start :: app where
  "start = \<lparr>calculator = initial, commandHistory = new_commandHistory,
     objects = (\<lambda>c. \<lparr>operation = [], operand = [], previousState = None\<rparr>)\<rparr>"



definition command_undo :: "nat \<Rightarrow> app \<Rightarrow> app" where
  "command_undo c a = (case previousState (objects a c) of
      None \<Rightarrow> a
    | Some s \<Rightarrow> a\<lparr>calculator := setState s (calculator a)\<rparr>)"



text \<open>
  \<open>undo\<close> reads \<open>commands[currentIndex]\<close>; beyond the end of the array that is \<open>undefined\<close>,
  and calling its \<open>undo\<close> raises a \<open>TypeError\<close>.
\<close>

definition undo :: "app \<Rightarrow> error + app \<times> bool" where
  "undo a =
     (let h = commandHistory a in
      if 0 \<le> currentIndex h then
        (if nat (currentIndex h) < length (commands h)
         then Inr ((command_undo (commands h ! nat (currentIndex h)) a)
                     \<lparr>commandHistory := h\<lparr>currentIndex := currentIndex h - 1\<rparr>\<rparr>, True)
         else Inl (TypeError ''command is undefined''))
      else Inr (a, False))"

definition canUndo :: "app \<Rightarrow> bool" where
  "canUndo a = (0 \<le> currentIndex (commandHistory a))"



section \<open>The input surface\<close>

text \<open>
  \<open>handleKeypadClick\<close>, \<open>handleKeyboard\<close> and the other handlers dispatch an event to an
  operation. The operations work on the model; only \<open>undo\<close> touches the command history.
\<close>

datatype event =
    Number string
  | Operator string
  | Clear
  | Delete
  | Decimal
  | Equals
  | Undo
  | Percentage
  | Function string
  | Memory string
  | Mode string
  | LoadFromHistory string
  | ClearHistory

definition on_model :: "(model \<Rightarrow> model \<times> outcome) \<Rightarrow> app \<Rightarrow> app \<times> outcome" where
  "on_model f a = (a\<lparr>calculator := fst (f (calculator a))\<rparr>, snd (f (calculator a)))"

definition controller_undo :: "app \<Rightarrow> app \<times> outcome" where
  "controller_undo a = (case undo a of
      Inl e \<Rightarrow> (a, Failed e)
    | Inr (a1, undone) \<Rightarrow> (a1, if undone then Updated else Rejected ''Nothing to undo''))"

fun handle :: "math \<Rightarrow> (number \<Rightarrow> string) \<Rightarrow> clock \<Rightarrow> event \<Rightarrow> app \<Rightarrow> app \<times> outcome" where
  "handle M loc clk (Number num) a = on_model (inputNumber num) a"
| "handle M loc clk (Operator op) a = on_model (inputOperator M loc op) a"
| "handle M loc clk Clear a = on_model (\<lambda>m. (reset m, Updated)) a"
| "handle M loc clk Delete a = on_model deleteLast a"
| "handle M loc clk Decimal a = on_model inputDecimal a"
| "handle M loc clk Equals a = on_model (calculate M loc clk) a"
| "handle M loc clk Undo a = controller_undo a"
| "handle M loc clk Percentage a = on_model (performPercentage loc) a"
| "handle M loc clk (Function func) a = on_model (performScientificFunction M loc clk func) a"
| "handle M loc clk (Memory action) a = on_model (handleMemoryClick action) a"
| "handle M loc clk (Mode mode) a = on_model (handleModeToggle mode) a"
| "handle M loc clk (LoadFromHistory v) a = on_model (loadFromHistory v) a"
| "handle M loc clk ClearHistory a = on_model (\<lambda>m. (clearHistory m, Updated)) a"

fun run :: "math \<Rightarrow> (number \<Rightarrow> string) \<Rightarrow> (clock \<times> event) list \<Rightarrow> app \<Rightarrow> app" where
  "run M loc [] a = a"
| "run M loc (ce # evs) a = run M loc evs (fst (handle M loc (fst ce) (snd ce) a))"




text \<open>A sequence of calls of \<open>addCalculationToHistory\<close>, each with its readings of the clock.\<close>

definition historyItem_of :: "clock \<times> string \<times> string \<Rightarrow> historyItem" where
  "historyItem_of ce = \<lparr>item_id = Date_now (fst ce), expression = fst (snd ce),
     result = snd (snd ce), timestamp = toISOString (fst ce)\<rparr>"

fun add_all :: "(clock \<times> string \<times> string) list \<Rightarrow> model \<Rightarrow> model" where
  "add_all [] m = m"
| "add_all (ce # ces) m = add_all ces (addToHistory (fst ce) (fst (snd ce)) (snd (snd ce)) m)"

text \<open>The \<open>i\<close>-th test entry: appended at time \<open>i\<close>, with the expression \<open>i\<close>.\<close>

definition entry_at :: "int \<Rightarrow> clock \<times> string \<times> string" where
  "entry_at i = (\<lparr>Date_now = i, toISOString = dec_digits i\<rparr>, dec_digits i, ''0'')"

section \<open>Example states\<close>

text \<open>Typing the digits of a string, one key at a time.\<close>

fun type_digits :: "string \<Rightarrow> model \<Rightarrow> model" where
  "type_digits [] m = m"
| "type_digits (c # cs) m = type_digits cs (fst (inputNumber [c] m))"

text \<open>The keys \<open>7\<close>, \<open>/\<close>, \<open>0\<close> from the initial state lead here.\<close>

definition seven_by_zero :: model where
  "seven_by_zero = initial\<lparr>currentValue := ''0'', previousValue := ''7'', operator := Some ''/'',
     isWaitingForOperand := False, history := ''7 /''\<rparr>"

text \<open>Fifteen digits typed, added to the memory and recalled: the display is full.\<close>

definition full_operand :: model where
  "full_operand = fst (handleMemoryClick ''recall''
     (fst (handleMemoryClick ''add'' (type_digits ''123456789012345'' initial))))"

definition noon :: clock where
  "noon = \<lparr>Date_now = 0, toISOString = ''1970-01-01T00:00:00.000Z''\<rparr>"



text \<open>What \<open>n\<close> calls of \<open>undo\<close> return, and the display they leave.\<close>

fun undone :: "error + app \<times> bool list \<Rightarrow> (bool list \<times> string) option" where
  "undone (Inl e) = None"
| "undone (Inr (a, bs)) = Some (bs, currentValue (calculator a))"

section \<open>Clear and reset\<close>

text \<open>
  C10. \<open>reset\<close> sets \<open>currentValue\<close> to \<open>0\<close> and clears \<open>previousValue\<close>, \<open>operator\<close>,
  \<open>isWaitingForOperand\<close> and the history label; the memory value and the calculation
  history (and the strategy) are as before, from any state.
\<close>

theorem reset_frame:
  "currentValue (reset m) = ''0'' \<and> previousValue (reset m) = [] \<and> operator (reset m) = None
   \<and> isWaitingForOperand (reset m) = False \<and> history (reset m) = []
   \<and> memoryValue (reset m) = memoryValue m
   \<and> calculationHistory (reset m) = calculationHistory m
   \<and> currentStrategy (reset m) = currentStrategy m"
  by (simp add: reset_def)

theorem reset_frame_witness:
  "currentValue (reset (add_all [entry_at 1] (memoryStore (Num (Fin 5 0)) initial))) = ''0''
   \<and> memoryValue (reset (add_all [entry_at 1] (memoryStore (Num (Fin 5 0)) initial))) = Fin 5 0
   \<and> map expression (calculationHistory
         (reset (add_all [entry_at 1] (memoryStore (Num (Fin 5 0)) initial)))) = [''1'']"
proof -
  have mem: "memoryValue (add_all [entry_at 1] (memoryStore (Num (Fin 5 0)) initial)) = Fin 5 0"
    by code_simp
  have hist: "map expression (calculationHistory
      (add_all [entry_at 1] (memoryStore (Num (Fin 5 0)) initial))) = [''1'']"
    by code_simp
  show ?thesis
    using reset_frame [of "add_all [entry_at 1] (memoryStore (Num (Fin 5 0)) initial)"] mem hist
    by simp
qed

section \<open>Digit entry\<close>

text \<open>
  C8. What \<open>inputNumber\<close> does in every state. While an operand is being entered (the
  engine is not waiting for a new operand), a digit whose append would make \<open>currentValue\<close>
  longer than 15 characters is declined without an exception: the whole model is returned
  unchanged, with the notice \<open>Maximum digits reached\<close>; a digit that keeps it within 15
  characters is appended (or replaces a lone \<open>0\<close>), and nothing else changes. While the
  engine waits for a new operand, the digit replaces \<open>currentValue\<close> and clears the flag,
  however long \<open>currentValue\<close> was: there the length is not looked at.
\<close>

theorem inputNumber_every_state:
  "(isWaitingForOperand m \<longrightarrow>
      inputNumber num m = (m\<lparr>currentValue := num, isWaitingForOperand := False\<rparr>, Updated))
   \<and> (\<not> isWaitingForOperand m
        \<and> 15 < length (if currentValue m = ''0'' then num else currentValue m @ num) \<longrightarrow>
      inputNumber num m = (m, Rejected ''Maximum digits reached''))
   \<and> (\<not> isWaitingForOperand m
        \<and> length (if currentValue m = ''0'' then num else currentValue m @ num) \<le> 15 \<longrightarrow>
      inputNumber num m
        = (m\<lparr>currentValue := (if currentValue m = ''0'' then num else currentValue m @ num)\<rparr>,
           Updated))"
  by (simp add: inputNumber_def Let_def)

theorem inputNumber_every_state_witness:
  "isWaitingForOperand full_operand
   \<and> inputNumber ''7'' full_operand
       = (full_operand\<lparr>currentValue := ''7'', isWaitingForOperand := False\<rparr>, Updated)
   \<and> \<not> isWaitingForOperand (type_digits ''123456789012345'' initial)
   \<and> 15 < length (currentValue (type_digits ''123456789012345'' initial) @ ''6'')
   \<and> inputNumber ''6'' (type_digits ''123456789012345'' initial)
       = (type_digits ''123456789012345'' initial, Rejected ''Maximum digits reached'')
   \<and> \<not> isWaitingForOperand (type_digits ''12345678901234'' initial)
   \<and> currentValue (fst (inputNumber ''5'' (type_digits ''12345678901234'' initial)))
       = ''123456789012345''"
proof -
  have w: "isWaitingForOperand full_operand"
    by code_simp
  have full: "\<not> isWaitingForOperand (type_digits ''123456789012345'' initial)
      \<and> currentValue (type_digits ''123456789012345'' initial) = ''123456789012345''"
    by code_simp
  have room: "\<not> isWaitingForOperand (type_digits ''12345678901234'' initial)
      \<and> currentValue (type_digits ''12345678901234'' initial) = ''12345678901234''"
    by code_simp
  show ?thesis
    using inputNumber_every_state [of full_operand "''7''"]
      inputNumber_every_state [of "type_digits ''123456789012345'' initial" "''6''"]
      inputNumber_every_state [of "type_digits ''12345678901234'' initial" "''5''"]
      w full room
    by simp
qed

text \<open>
  The display is full (15 characters) and the engine waits for a new operand, after a
  recall from the memory. Appending \<open>7\<close> would make 16 characters, yet the digit is
  accepted: it replaces the display, so the state changes.
\<close>

theorem full_display_accepts_digit:
  "currentValue full_operand = ''123456789012345''
   \<and> isWaitingForOperand full_operand
   \<and> 15 < length (currentValue full_operand @ ''7'')
   \<and> inputNumber ''7'' full_operand \<noteq> (full_operand, Rejected ''Maximum digits reached'')
   \<and> snd (inputNumber ''7'' full_operand) = Updated
   \<and> currentValue (fst (inputNumber ''7'' full_operand)) = ''7''
   \<and> fst (inputNumber ''7'' full_operand) \<noteq> full_operand"
  by code_simp

section \<open>The calculation history\<close>

lemma take_append_take: "take n (xs @ take n ys) = take n (xs @ ys)"
  by (simp add: min_def)

lemma addToHistory_calculationHistory:
  "calculationHistory (addToHistory clk expr res m)
     = take 100 (historyItem_of (clk, expr, res) # calculationHistory m)"
  by (simp add: addToHistory_def historyItem_of_def Let_def)

lemma add_all_calculationHistory:
  "length (calculationHistory m) \<le> 100 \<Longrightarrow>
   calculationHistory (add_all ces m) = take 100 (rev (map historyItem_of ces) @ calculationHistory m)"
proof (induction ces arbitrary: m)
  case Nil
  then show ?case by simp
next
  case (Cons ce ces)
  have "calculationHistory (add_all (ce # ces) m)
      = take 100 (rev (map historyItem_of ces)
          @ take 100 (historyItem_of ce # calculationHistory m))"
    using Cons.IH [of "addToHistory (fst ce) (fst (snd ce)) (snd (snd ce)) m"]
    by (simp add: addToHistory_calculationHistory)
  also have "\<dots> = take 100 (rev (map historyItem_of ces) @ historyItem_of ce # calculationHistory m)"
    by (rule take_append_take)
  finally show ?case by simp
qed

text \<open>
  C5. \<open>addToHistory\<close> puts the new entry, with its timestamp, at the front and keeps the
  first 100. So after any sequence of appends to a history of at most 100 entries (the
  empty one to start with) the history is the entries in reverse order of arrival, newest
  first, cut to 100; and 101 appends to the empty history leave exactly the last 100 of
  them, the first one evicted.
\<close>

theorem history_newest_first_capped:
  "calculationHistory (addToHistory clk expr res m)
     = take 100 (\<lparr>item_id = Date_now clk, expression = expr, result = res,
                    timestamp = toISOString clk\<rparr> # calculationHistory m)
   \<and> (length (calculationHistory m) \<le> 100 \<longrightarrow>
        calculationHistory (add_all ces m)
          = take 100 (rev (map historyItem_of ces) @ calculationHistory m)
        \<and> length (calculationHistory (add_all ces m)) \<le> 100)
   \<and> (length ces = 101 \<longrightarrow>
        calculationHistory (add_all ces initial) = rev (map historyItem_of (tl ces))
        \<and> length (calculationHistory (add_all ces initial)) = 100)"
proof (intro conjI impI)
  show "calculationHistory (addToHistory clk expr res m)
     = take 100 (\<lparr>item_id = Date_now clk, expression = expr, result = res,
                    timestamp = toISOString clk\<rparr> # calculationHistory m)"
    by (simp add: addToHistory_def Let_def)
next
  assume "length (calculationHistory m) \<le> 100"
  then show "calculationHistory (add_all ces m)
      = take 100 (rev (map historyItem_of ces) @ calculationHistory m)"
    by (rule add_all_calculationHistory)
  then show "length (calculationHistory (add_all ces m)) \<le> 100"
    by simp
next
  assume len: "length ces = 101"
  then obtain ce rest where ces: "ces = ce # rest" and rest: "length rest = 100"
    by (cases ces) auto
  have "calculationHistory (add_all ces initial) = take 100 (rev (map historyItem_of ces))"
    using add_all_calculationHistory [of initial ces] by (simp add: initial_def)
  then show eq: "calculationHistory (add_all ces initial) = rev (map historyItem_of (tl ces))"
    using ces rest by simp
  then show "length (calculationHistory (add_all ces initial)) = 100"
    using ces rest by simp
qed

theorem history_newest_first_capped_witness:
  "length (calculationHistory initial) \<le> 100
   \<and> length (map entry_at [1..101]) = 101
   \<and> map item_id (calculationHistory (add_all (map entry_at [1..101]) initial)) = rev [2..101]
   \<and> length (calculationHistory (add_all (map entry_at [1..101]) initial)) = 100"
proof -
  have len: "length (map entry_at [1..101]) = 101"
    by simp
  have ids: "map item_id (rev (map historyItem_of (tl (map entry_at [1..101])))) = rev [2..101]"
    by code_simp
  have last100: "calculationHistory (add_all (map entry_at [1..101]) initial)
        = rev (map historyItem_of (tl (map entry_at [1..101])))
      \<and> length (calculationHistory (add_all (map entry_at [1..101]) initial)) = 100"
    using history_newest_first_capped
      [of "fst (entry_at 1)" "''1''" "''0''" initial "map entry_at [1..101]"] len
    by blast
  have start: "length (calculationHistory initial) \<le> 100"
    by (simp add: initial_def)
  from last100 have "map item_id (calculationHistory (add_all (map entry_at [1..101]) initial))
      = rev [2..101]"
    by (simp only: ids)
  with start len last100 show ?thesis
    by blast
qed

section \<open>The factorial\<close>

lemma int_num_0: "int_num 0 = Fin 0 0" by code_simp
lemma int_num_1: "int_num 1 = Fin 1 0" by code_simp

lemma shl_zero: "shl 0 k = 0"
  by (simp add: shl_def)

lemma num_eq_zero_to_int: "num_eq x (Fin 0 0) \<Longrightarrow> to_int x = 0"
  by (cases x) (auto simp: shl_def split: if_splits)

lemma num_eq_one_to_int: "num_eq x (Fin 1 0) \<Longrightarrow> to_int x = 1"
  by (cases x) (auto simp: shl_def split: if_splits)

lemma factorial_loop_foldl:
  "factorial_loop i n r = foldl (\<lambda>r i. mul r (int_num i)) r [i..n]"
proof (induction i n r rule: factorial_loop.induct)
  case (1 i x result)
  show ?case
  proof (cases "i \<le> x")
    case True
    then show ?thesis
      using "1.IH" by (subst factorial_loop.simps) (simp add: upto_rec1 [of i x])
  next
    case False
    then show ?thesis
      by (subst factorial_loop.simps) simp
  qed
qed

text \<open>
  C4. \<open>factorial\<close> raises the domain error exactly when its argument is negative, not an
  integer (\<open>NaN\<close> and the infinities are not integers) or greater than 170. Otherwise it
  returns the product of the loop, the numbers from 2 to \<open>x\<close> multiplied in turn into 1,
  each product rounded to a double; that is 1 for 0 and for 1. \<open>factorial(170)\<close> is the
  finite double \<open>5818033100654133 * 2^967\<close> (about \<open>7.257e306\<close>); \<open>factorial(171)\<close>,
  \<open>factorial(-1)\<close> and \<open>factorial(2.5)\<close> raise the error.
\<close>

theorem factorial_domain_and_product:
  "(factorial x = Inl (DomainError ''Invalid factorial input''))
     = (lt x (int_num 0) \<or> \<not> Number_isInteger x \<or> lt (int_num 170) x)
   \<and> (\<not> lt x (int_num 0) \<and> Number_isInteger x \<and> \<not> lt (int_num 170) x \<longrightarrow>
        factorial x = Inr (foldl (\<lambda>r i. mul r (int_num i)) (int_num 1) [2..to_int x]))
   \<and> factorial (int_num 0) = Inr (int_num 1)
   \<and> factorial (int_num 1) = Inr (int_num 1)
   \<and> factorial (int_num 170) = Inr (Fin 5818033100654133 967)
   \<and> factorial (int_num 171) = Inl (DomainError ''Invalid factorial input'')
   \<and> factorial (int_num (- 1)) = Inl (DomainError ''Invalid factorial input'')
   \<and> factorial (Fin 5 (- 1)) = Inl (DomainError ''Invalid factorial input'')"
proof (intro conjI impI)
  show "(factorial x = Inl (DomainError ''Invalid factorial input''))
     = (lt x (int_num 0) \<or> \<not> Number_isInteger x \<or> lt (int_num 170) x)"
    by (simp add: factorial_def)
next
  assume ok: "\<not> lt x (int_num 0) \<and> Number_isInteger x \<and> \<not> lt (int_num 170) x"
  show "factorial x = Inr (foldl (\<lambda>r i. mul r (int_num i)) (int_num 1) [2..to_int x])"
  proof (cases "num_eq x (int_num 0) \<or> num_eq x (int_num 1)")
    case True
    then have "to_int x < 2"
      using num_eq_zero_to_int [of x] num_eq_one_to_int [of x]
      by (auto simp: int_num_0 int_num_1)
    then have "[2..to_int x] = []"
      by simp
    with True ok show ?thesis
      by (simp add: factorial_def)
  next
    case False
    with ok show ?thesis
      by (simp add: factorial_def factorial_loop_foldl)
  qed
next
  show "factorial (int_num 0) = Inr (int_num 1)" by code_simp
  show "factorial (int_num 1) = Inr (int_num 1)" by code_simp
  show "factorial (int_num 170) = Inr (Fin 5818033100654133 967)" by code_simp
  show "factorial (int_num 171) = Inl (DomainError ''Invalid factorial input'')" by code_simp
  show "factorial (int_num (- 1)) = Inl (DomainError ''Invalid factorial input'')" by code_simp
  show "factorial (Fin 5 (- 1)) = Inl (DomainError ''Invalid factorial input'')" by code_simp
qed

theorem factorial_domain_and_product_witness:
  "\<not> lt (int_num 5) (int_num 0) \<and> Number_isInteger (int_num 5) \<and> \<not> lt (int_num 170) (int_num 5)
   \<and> factorial (int_num 5) = Inr (int_num 120)
   \<and> isFinite (Fin 5818033100654133 967)"
proof -
  have ok: "\<not> lt (int_num 5) (int_num 0) \<and> Number_isInteger (int_num 5) \<and> \<not> lt (int_num 170) (int_num 5)"
    by code_simp
  have prod: "foldl (\<lambda>r i. mul r (int_num i)) (int_num 1) [2..to_int (int_num 5)] = int_num 120"
    by code_simp
  show ?thesis
    using factorial_domain_and_product [of "int_num 5"] ok prod by simp
qed

section \<open>Division by zero\<close>

lemma is_zero_not_NaN: "is_zero x \<Longrightarrow> \<not> isNaN x"
  by (cases x) (simp_all add: isNaN_def)

lemma divide_by_zero:
  "is_zero b \<Longrightarrow> model_calculate M m ''/'' a b
     = (if currentStrategy m = Basic then Inl DivisionByZero else Inl (UnknownOperation ''/''))"
  by (cases "currentStrategy m")
     (simp_all add: model_calculate_def basic_entry_def scientific_entry_def inherited_def
        basic_operations_def scientific_operations_def)

text \<open>
  C2. The operator \<open>/\<close> of the basic table raises \<open>Division by zero\<close> exactly when the
  divisor is zero, for every dividend. When the pending operator is \<open>/\<close> and the display
  reads as zero, the two entry points that evaluate it, \<open>calculate\<close> (the key \<open>=\<close>) and
  \<open>inputOperator\<close> (a further operator key while an operand is entered), catch the
  exception and return the model exactly as it was, so no history entry is added either.
  The exception is \<open>Division by zero\<close> in the basic strategy; the table of the scientific
  strategy has no \<open>/\<close>, and there the exception caught is \<open>Unknown operation\<close>, the model
  unchanged all the same.
\<close>

theorem division_by_zero_state_unchanged:
  "(\<exists>f. basic_operations ''/'' = Some f \<and> (\<forall>a b. (f a b = Inl DivisionByZero) = is_zero b))
   \<and> (operator m = Some ''/'' \<and> previousValue m \<noteq> [] \<and> is_zero (parseFloat (currentValue m)) \<longrightarrow>
        calculate M loc clk m
          = (m, Failed (if currentStrategy m = Basic then DivisionByZero else UnknownOperation ''/'')))
   \<and> (operator m = Some ''/'' \<and> previousValue m \<noteq> [] \<and> \<not> isWaitingForOperand m
        \<and> is_zero (parseFloat (currentValue m)) \<longrightarrow>
        inputOperator M loc nextOperator m
          = (m, Failed (if currentStrategy m = Basic then DivisionByZero else UnknownOperation ''/'')))
   \<and> (operator (calculator ap) = Some ''/'' \<and> previousValue (calculator ap) \<noteq> []
        \<and> is_zero (parseFloat (currentValue (calculator ap))) \<longrightarrow>
        fst (handle M loc clk Equals ap) = ap)"
proof (intro conjI impI)
  show "\<exists>f. basic_operations ''/'' = Some f \<and> (\<forall>a b. (f a b = Inl DivisionByZero) = is_zero b)"
    by (simp add: basic_operations_def)
next
  assume h: "operator m = Some ''/'' \<and> previousValue m \<noteq> [] \<and> is_zero (parseFloat (currentValue m))"
  then show "calculate M loc clk m
      = (m, Failed (if currentStrategy m = Basic then DivisionByZero else UnknownOperation ''/''))"
    using is_zero_not_NaN [of "parseFloat (currentValue m)"]
    by (simp add: calculate_def Let_def divide_by_zero)
next
  assume h: "operator m = Some ''/'' \<and> previousValue m \<noteq> [] \<and> \<not> isWaitingForOperand m
        \<and> is_zero (parseFloat (currentValue m))"
  then show "inputOperator M loc nextOperator m
      = (m, Failed (if currentStrategy m = Basic then DivisionByZero else UnknownOperation ''/''))"
    using is_zero_not_NaN [of "parseFloat (currentValue m)"]
    by (simp add: inputOperator_def Let_def divide_by_zero)
next
  assume h: "operator (calculator ap) = Some ''/'' \<and> previousValue (calculator ap) \<noteq> []
        \<and> is_zero (parseFloat (currentValue (calculator ap)))"
  then show "fst (handle M loc clk Equals ap) = ap"
    using is_zero_not_NaN [of "parseFloat (currentValue (calculator ap))"]
    by (simp add: on_model_def calculate_def Let_def divide_by_zero)
qed

theorem division_by_zero_state_unchanged_witness:
  "\<forall>M loc clk.
     calculator (run M loc [(noon, Number ''7''), (noon, Operator ''/''), (noon, Number ''0'')] start)
       = seven_by_zero
     \<and> operator seven_by_zero = Some ''/'' \<and> previousValue seven_by_zero \<noteq> []
     \<and> \<not> isWaitingForOperand seven_by_zero
     \<and> is_zero (parseFloat (currentValue seven_by_zero))
     \<and> calculate M loc clk seven_by_zero = (seven_by_zero, Failed DivisionByZero)
     \<and> inputOperator M loc ''+'' seven_by_zero = (seven_by_zero, Failed DivisionByZero)
     \<and> calculationHistory (fst (calculate M loc clk seven_by_zero)) = []"
proof (intro allI)
  fix M loc clk
  have reach: "calculator (run M loc
      [(noon, Number ''7''), (noon, Operator ''/''), (noon, Number ''0'')] start) = seven_by_zero"
    by code_simp
  have z: "is_zero (parseFloat (currentValue seven_by_zero))"
    by code_simp
  have pre: "operator seven_by_zero = Some ''/'' \<and> previousValue seven_by_zero \<noteq> []
      \<and> \<not> isWaitingForOperand seven_by_zero
      \<and> currentStrategy seven_by_zero = Basic \<and> calculationHistory seven_by_zero = []"
    by (simp add: seven_by_zero_def initial_def)
  show "calculator (run M loc [(noon, Number ''7''), (noon, Operator ''/''), (noon, Number ''0'')] start)
       = seven_by_zero
     \<and> operator seven_by_zero = Some ''/'' \<and> previousValue seven_by_zero \<noteq> []
     \<and> \<not> isWaitingForOperand seven_by_zero
     \<and> is_zero (parseFloat (currentValue seven_by_zero))
     \<and> calculate M loc clk seven_by_zero = (seven_by_zero, Failed DivisionByZero)
     \<and> inputOperator M loc ''+'' seven_by_zero = (seven_by_zero, Failed DivisionByZero)
     \<and> calculationHistory (fst (calculate M loc clk seven_by_zero)) = []"
    using division_by_zero_state_unchanged
        [where m = seven_by_zero and M = M and loc = loc and clk = clk and nextOperator = "''+''"]
      reach z pre
    by simp
qed

section \<open>The number formatter\<close>

lemma isFinite_not_NaN: "isFinite x \<Longrightarrow> \<not> isNaN x"
  by (cases x) (simp_all add: isNaN_def)

text \<open>
  C3. \<open>formatNumber\<close> on a number raises \<open>Invalid number\<close> exactly when the number is \<open>NaN\<close>
  or infinite, and raises nothing else. Otherwise: when the default string form is longer
  than 12 characters the result is \<open>toExponential(5)\<close>, whatever the magnitude; else when
  the magnitude is at least 1000 and the default string form contains no point, the result
  is the string of the locale (digits grouped); else it is the default string form. The
  test for grouping reads the string, not the value.
\<close>

theorem formatNumber_precedence:
  "(formatNumber loc (Numeric x) = Inl InvalidNumber) = (isNaN x \<or> \<not> isFinite x)
   \<and> (\<forall>e. formatNumber loc (Numeric x) = Inl e \<longrightarrow> e = InvalidNumber)
   \<and> (isFinite x \<and> 12 < length (toString x) \<longrightarrow>
        formatNumber loc (Numeric x) = Inr (toExponential 5 x))
   \<and> (isFinite x \<and> length (toString x) \<le> 12 \<and> le (int_num 1000) (Math_abs x)
        \<and> CHR ''.'' \<notin> set (toString x) \<longrightarrow> formatNumber loc (Numeric x) = Inr (loc x))
   \<and> (isFinite x \<and> length (toString x) \<le> 12
        \<and> \<not> (le (int_num 1000) (Math_abs x) \<and> CHR ''.'' \<notin> set (toString x))
        \<longrightarrow> formatNumber loc (Numeric x) = Inr (toString x))"
  using isFinite_not_NaN [of x]
  by (auto simp: formatNumber_def split: if_splits)

theorem formatNumber_precedence_witness:
  "isFinite (int_num 1307674368000) \<and> 12 < length (toString (int_num 1307674368000))
   \<and> le (int_num 1000) (Math_abs (int_num 1307674368000))
   \<and> Number_isInteger (int_num 1307674368000)
   \<and> formatNumber toLocaleString_enUS (Numeric (int_num 1307674368000)) = Inr ''1.30767e+12''
   \<and> isFinite (int_num 5040) \<and> length (toString (int_num 5040)) \<le> 12
   \<and> le (int_num 1000) (Math_abs (int_num 5040)) \<and> CHR ''.'' \<notin> set (toString (int_num 5040))
   \<and> formatNumber toLocaleString_enUS (Numeric (int_num 5040)) = Inr ''5,040''
   \<and> formatNumber toLocaleString_enUS (Numeric (Fin 5 (- 1))) = Inr ''2.5''
   \<and> formatNumber toLocaleString_enUS (Numeric PosInf) = Inl InvalidNumber"
proof -
  have big: "isFinite (int_num 1307674368000) \<and> 12 < length (toString (int_num 1307674368000))
      \<and> le (int_num 1000) (Math_abs (int_num 1307674368000))
      \<and> Number_isInteger (int_num 1307674368000)
      \<and> toExponential 5 (int_num 1307674368000) = ''1.30767e+12''"
    by code_simp
  have grouped: "isFinite (int_num 5040) \<and> length (toString (int_num 5040)) \<le> 12
      \<and> le (int_num 1000) (Math_abs (int_num 5040)) \<and> CHR ''.'' \<notin> set (toString (int_num 5040))
      \<and> toLocaleString_enUS (int_num 5040) = ''5,040''"
    by code_simp
  have plain: "isFinite (Fin 5 (- 1)) \<and> length (toString (Fin 5 (- 1))) \<le> 12
      \<and> \<not> (le (int_num 1000) (Math_abs (Fin 5 (- 1))) \<and> CHR ''.'' \<notin> set (toString (Fin 5 (- 1))))
      \<and> toString (Fin 5 (- 1)) = ''2.5''"
    by code_simp
  have inf: "\<not> isFinite PosInf"
    by simp
  show ?thesis
    using formatNumber_precedence [of toLocaleString_enUS "int_num 1307674368000"]
      formatNumber_precedence [of toLocaleString_enUS "int_num 5040"]
      formatNumber_precedence [of toLocaleString_enUS "Fin 5 (- 1)"]
      formatNumber_precedence [of toLocaleString_enUS PosInf]
      big grouped plain inf
    by simp
qed

text \<open>
  The double \<open>1.5e21\<close> is an integer of magnitude at least 1000 and its default string
  form, \<open>1.5e+21\<close>, has 7 characters. It has no fractional part, but its string has a
  point: it is returned plain, not grouped as \<open>1,500,000,000,000,000,000,000\<close>.
\<close>

theorem formatNumber_integer_not_grouped:
  "isFinite (int_num (15 * 10 ^ 20))
   \<and> Number_isInteger (int_num (15 * 10 ^ 20))
   \<and> le (int_num 1000) (Math_abs (int_num (15 * 10 ^ 20)))
   \<and> length (toString (int_num (15 * 10 ^ 20))) \<le> 12
   \<and> formatNumber toLocaleString_enUS (Numeric (int_num (15 * 10 ^ 20))) = Inr ''1.5e+21''
   \<and> toLocaleString_enUS (int_num (15 * 10 ^ 20)) = ''1,500,000,000,000,000,000,000''"
  by code_simp

section \<open>Scientific functions\<close>

text \<open>
  C6. \<open>factorial\<close> applied to the display \<open>5\<close>: the display becomes \<open>120\<close>, the engine waits
  for a new operand, and the history entry appended has the result \<open>120\<close> and the
  expression \<open>factorial(120)\<close>. The expression is built from \<open>getCurrentValue()\<close> after the
  formatted result has been written there, so it shows the result where the operand 5
  was meant.
\<close>

theorem scientific_expression_shows_result:
  "performScientificFunction M loc clk ''factorial'' (type_digits ''5'' initial)
     = (initial\<lparr>currentValue := ''120'', isWaitingForOperand := True,
          calculationHistory := [\<lparr>item_id = Date_now clk, expression = ''factorial(120)'',
            result = ''120'', timestamp = toISOString clk\<rparr>]\<rparr>, Updated)"
proof -
  have typed: "type_digits ''5'' initial = initial\<lparr>currentValue := ''5''\<rparr>"
    by (simp add: inputNumber_def initial_def)
  have cur: "parseFloat ''5'' = Fin 5 0"
    by code_simp
  have calc: "scientificCalculate M ''factorial'' (Fin 5 0) = Inr (Numeric (Fin 15 3))"
    by code_simp
  have fmt: "controller_formatNumber loc (Numeric (Fin 15 3)) = ''120''"
    by code_simp
  show ?thesis
    unfolding typed
    by (simp add: performScientificFunction_def scientific_result_def Let_def cur calc fmt
        isNaN_def addToHistory_def initial_def)
qed

theorem scientific_expression_shows_result_witness:
  "\<forall>M. map expression (calculationHistory (fst (performScientificFunction M toLocaleString_enUS
         noon ''factorial'' (type_digits ''5'' initial)))) = [''factorial(120)'']
       \<and> currentValue (fst (performScientificFunction M toLocaleString_enUS
         noon ''factorial'' (type_digits ''5'' initial))) = ''120''"
  using scientific_expression_shows_result [where loc = toLocaleString_enUS and clk = noon]
  by simp

section \<open>The form of the operand\<close>



















section \<open>The memory\<close>




section \<open>Undo\<close>













end
